theory Spec2Isabelle
  imports Complex_Main
begin

section \<open>JavaScript values\<close>

text \<open>
  Messages reach \<^verbatim>\<open>handle\<close> and \<^verbatim>\<open>receive\<close> from \<^verbatim>\<open>JSON.parse\<close> or from a transport, so at
  run time they are arbitrary JavaScript data, whatever the TypeScript types say (the tests
  pass \<^verbatim>\<open>[1, 2, 3] as unknown as Message[]\<close>). A value is JSON data or \<^verbatim>\<open>undefined\<close>; an object
  is the list of its own properties in insertion order. Numbers are only ever copied and
  compared by the code, never computed with.
\<close>

datatype jsval =
    JUndefined
  | JNull
  | JBool bool
  | JNum real
  | JStr string
  | JArr "jsval list"
  | JObj "(string \<times> jsval) list"

text \<open>
  \<^verbatim>\<open>v.k\<close> on a value that is neither \<^verbatim>\<open>undefined\<close> nor \<^verbatim>\<open>null\<close>. Only the keys
  \<^verbatim>\<open>jsonrpc, method, id, params, result, error, message, code, data\<close> are read by the code;
  no prototype defines any of them, so a primitive or an array yields \<^verbatim>\<open>undefined\<close>.
\<close>

fun get_prop :: "jsval \<Rightarrow> string \<Rightarrow> jsval" where
  "get_prop (JObj ps) k = (case map_of ps k of Some v \<Rightarrow> v | None \<Rightarrow> JUndefined)"
| "get_prop v k = JUndefined"

text \<open>\<^verbatim>\<open>v?.k\<close>: optional chaining yields \<^verbatim>\<open>undefined\<close> on \<^verbatim>\<open>undefined\<close> and \<^verbatim>\<open>null\<close>.\<close>

definition optional_prop :: "jsval \<Rightarrow> string \<Rightarrow> jsval" where
  "optional_prop v k = (if v = JUndefined \<or> v = JNull then JUndefined else get_prop v k)"

text \<open>\<^verbatim>\<open>a ?? b\<close>.\<close>

definition nullish_coalesce :: "jsval \<Rightarrow> jsval \<Rightarrow> jsval" where
  "nullish_coalesce a b = (if a = JUndefined \<or> a = JNull then b else a)"

text \<open>\<^verbatim>\<open>v != null\<close>: the loose comparison is false exactly on \<^verbatim>\<open>null\<close> and \<^verbatim>\<open>undefined\<close>.\<close>

definition not_null :: "jsval \<Rightarrow> bool" where
  "not_null v = (v \<noteq> JNull \<and> v \<noteq> JUndefined)"

text \<open>\<^verbatim>\<open>!!v\<close>.\<close>

fun truthy :: "jsval \<Rightarrow> bool" where
  "truthy JUndefined = False"
| "truthy JNull = False"
| "truthy (JBool b) = b"
| "truthy (JNum n) = (n \<noteq> 0)"
| "truthy (JStr s) = (s \<noteq> [])"
| "truthy (JArr xs) = True"
| "truthy (JObj ps) = True"

subsection \<open>Thrown values and the \<^verbatim>\<open>RPCError\<close> class\<close>

text \<open>
  \<^verbatim>\<open>class RPCError extends Error\<close> with the fields \<^verbatim>\<open>message\<close> (set by \<^verbatim>\<open>super(message)\<close>),
  \<^verbatim>\<open>code\<close> and \<^verbatim>\<open>data\<close>. Its \<^verbatim>\<open>name\<close>, always \<^verbatim>\<open>'RPCError'\<close>, is read nowhere and left out.
\<close>

record rpc_error =
  err_message :: string
  err_code :: jsval
  err_data :: jsval

text \<open>
  \<^verbatim>\<open>constructor(message, opts)\<close>:
  \<^verbatim>\<open>this.code = opts.code ?? 0; this.data = opts.data\<close>.
\<close>

definition RPCError :: "string \<Rightarrow> jsval \<Rightarrow> rpc_error" where
  "RPCError message opts =
     \<lparr>err_message = message,
      err_code = nullish_coalesce (get_prop opts ''code'') (JNum 0),
      err_data = get_prop opts ''data''\<rparr>"

text \<open>
  What a \<^verbatim>\<open>catch\<close> can tell about a thrown value: an instance of \<^verbatim>\<open>RPCError\<close>, another
  instance of \<^verbatim>\<open>Error\<close> (with its \<^verbatim>\<open>message\<close>), or a value that is no \<^verbatim>\<open>Error\<close> at all.
\<close>

datatype thrown =
    Thrown_RPCError rpc_error
  | Thrown_Error string
  | Thrown_Value jsval

subsection \<open>Operations of the language runtime\<close>

text \<open>
  The code calls four operations of the language that this repository does not define.
  They are parameters of the model:
  \<^item> \<^verbatim>\<open>JSON.parse\<close>, \<open>None\<close> when it throws;
  \<^item> the string conversion of a number, an array or an object, as a property key and as
    the argument of the \<^verbatim>\<open>Error\<close> constructor (\<open>to_string\<close>) and in \<^verbatim>\<open>'' + v\<close>
    (\<open>concat_string\<close>); either can throw, for instance on an object whose own
    \<^verbatim>\<open>toString\<close> property is not callable;
  \<^item> the \<^verbatim>\<open>TypeError\<close> the runtime raises itself (its message is engine specific).
\<close>

record js_runtime =
  json_parse :: "string \<Rightarrow> jsval option"
  to_string :: "jsval \<Rightarrow> thrown + string"
  concat_string :: "jsval \<Rightarrow> thrown + string"
  type_error :: thrown

text \<open>The conversions of the primitives are fixed by the language.\<close>

definition primitive_string :: "jsval \<Rightarrow> string option" where
  "primitive_string v =
     (case v of
        JStr s \<Rightarrow> Some s
      | JUndefined \<Rightarrow> Some ''undefined''
      | JNull \<Rightarrow> Some ''null''
      | JBool b \<Rightarrow> Some (if b then ''true'' else ''false'')
      | _ \<Rightarrow> None)"

text \<open>\<^verbatim>\<open>obj[v]\<close> converts \<^verbatim>\<open>v\<close> to a property key.\<close>

definition property_key :: "js_runtime \<Rightarrow> jsval \<Rightarrow> thrown + string" where
  "property_key rt v = (case primitive_string v of Some s \<Rightarrow> Inr s | None \<Rightarrow> to_string rt v)"

text \<open>\<^verbatim>\<open>'' + v\<close>.\<close>

definition string_concat :: "js_runtime \<Rightarrow> jsval \<Rightarrow> thrown + string" where
  "string_concat rt v =
     (case primitive_string v of Some s \<Rightarrow> Inr s | None \<Rightarrow> concat_string rt v)"

text \<open>
  \<^verbatim>\<open>k in v\<close> for the keys the code tests (\<^verbatim>\<open>method\<close>, \<^verbatim>\<open>result\<close>, \<^verbatim>\<open>error\<close>): an own
  property of an object, never a property of an array, and a \<^verbatim>\<open>TypeError\<close> on anything
  that is not an object.
\<close>

definition js_in :: "js_runtime \<Rightarrow> string \<Rightarrow> jsval \<Rightarrow> thrown + bool" where
  "js_in rt k v =
     (case v of
        JObj ps \<Rightarrow> Inr (k \<in> fst ` set ps)
      | JArr xs \<Rightarrow> Inr False
      | _ \<Rightarrow> Inl (type_error rt))"

section \<open>The dispatcher: \<^verbatim>\<open>handle\<close>\<close>

text \<open>
  A handler map is a JavaScript object. \<^verbatim>\<open>handlerObj[name]\<close> finds an own property or, failing
  that, a property inherited through the prototype chain (\<^verbatim>\<open>Object.prototype\<close> for a plain
  object). The code only asks of the value found whether it is truthy and then awaits
  \<^verbatim>\<open>fn.call(handlerObj, params)\<close>, so a property value is \<open>Falsy\<close>, or \<open>Invocable f\<close> where
  \<open>f params\<close> is how that awaited call settles: \<open>Inr\<close> the value it returns or resolves
  to, \<open>Inl\<close> what it throws or rejects with (a truthy value that is not callable makes the
  call throw a \<^verbatim>\<open>TypeError\<close>). Handlers are taken to settle.
\<close>

datatype hval = Falsy | Invocable "jsval \<Rightarrow> thrown + jsval"

record handler_obj =
  own_props :: "string \<Rightarrow> hval option"
  inherited_props :: "string \<Rightarrow> hval option"

definition get_property :: "handler_obj \<Rightarrow> string \<Rightarrow> hval" where
  "get_property handlerObj k =
     (case own_props handlerObj k of
        Some v \<Rightarrow> v
      | None \<Rightarrow> (case inherited_props handlerObj k of Some v \<Rightarrow> v | None \<Rightarrow> Falsy))"

text \<open>
  The second argument of \<^verbatim>\<open>handle\<close>: a handler map, or a factory from the context to one.
  A factory is a function of the user and can throw.
\<close>

datatype 'c handler_arg =
    Handler_map handler_obj
  | Handler_factory "'c \<Rightarrow> thrown + handler_obj"

text \<open>\<^verbatim>\<open>typeof handler === 'function' ? handler(context!) : handler\<close>\<close>

definition resolve_handler :: "'c handler_arg \<Rightarrow> 'c \<Rightarrow> thrown + handler_obj" where
  "resolve_handler handler context =
     (case handler of Handler_factory f \<Rightarrow> f context | Handler_map h \<Rightarrow> Inr h)"

text \<open>\<^verbatim>\<open>export const jsonrpc = '2.0'\<close>\<close>

definition jsonrpc :: string where
  "jsonrpc = ''2.0''"

definition invalidRequest :: jsval where
  "invalidRequest =
     JObj [(''jsonrpc'', JStr jsonrpc), (''id'', JNull),
           (''error'', JObj [(''code'', JNum (- 32600)), (''message'', JStr ''Invalid Request'')])]"

definition parse_error :: jsval where
  "parse_error =
     JObj [(''jsonrpc'', JStr jsonrpc), (''id'', JNull),
           (''error'', JObj [(''code'', JNum (- 32700)), (''message'', JStr ''Parse error'')])]"

text \<open>The three object literals that \<^verbatim>\<open>onMessage\<close> returns, with their keys in source order.\<close>

definition method_not_found :: "jsval \<Rightarrow> jsval" where
  "method_not_found id' =
     JObj [(''jsonrpc'', JStr jsonrpc), (''id'', id'),
           (''error'', JObj [(''code'', JNum (- 32601)), (''message'', JStr ''Method not found'')])]"

definition result_message :: "jsval \<Rightarrow> jsval \<Rightarrow> jsval" where
  "result_message id' result =
     JObj [(''jsonrpc'', JStr jsonrpc), (''id'', id'), (''result'', result)]"

definition error_message :: "jsval \<Rightarrow> string \<Rightarrow> jsval \<Rightarrow> jsval \<Rightarrow> jsval" where
  "error_message id' errorMessage errorCode errorData =
     JObj [(''jsonrpc'', JStr jsonrpc), (''id'', id'),
           (''error'', JObj [(''message'', JStr errorMessage), (''code'', errorCode),
                             (''data'', errorData)])]"

text \<open>
  The body of the \<^verbatim>\<open>catch\<close> block under \<^verbatim>\<open>if (message.id != null)\<close>. The conversion
  \<^verbatim>\<open>'' + error\<close> stands inside the \<^verbatim>\<open>catch\<close>: when it throws, nothing catches it.
\<close>

definition catch_reply :: "js_runtime \<Rightarrow> jsval \<Rightarrow> thrown \<Rightarrow> thrown + jsval" where
  "catch_reply rt id' error =
     (case error of
        Thrown_RPCError e \<Rightarrow> Inr (error_message id' (err_message e) (err_code e) (err_data e))
      | Thrown_Error m \<Rightarrow> Inr (error_message id' m (JNum 0) JUndefined)
      | Thrown_Value v \<Rightarrow>
          (case string_concat rt v of
             Inl e \<Rightarrow> Inl e
           | Inr s \<Rightarrow> Inr (error_message id' s (JNum 0) JUndefined)))"

text \<open>
  The inner \<^verbatim>\<open>async function onMessage(message)\<close> of \<^verbatim>\<open>handle\<close>. The result is how its
  promise settles: \<open>Inr v\<close> fulfilled with \<open>v\<close> (\<open>JUndefined\<close> when the function falls off
  its end), \<open>Inl e\<close> rejected with \<open>e\<close>. Only the call of the handler stands in the
  \<^verbatim>\<open>try\<close> block; the factory call and the property lookup do not.
\<close>

definition onMessage :: "js_runtime \<Rightarrow> 'c handler_arg \<Rightarrow> 'c \<Rightarrow> jsval \<Rightarrow> thrown + jsval" where
  "onMessage rt handler context message =
     (if optional_prop message ''jsonrpc'' \<noteq> JStr ''2.0'' then Inr invalidRequest
      else
        (case js_in rt ''method'' message of
           Inl e \<Rightarrow> Inl e
         | Inr False \<Rightarrow> Inr JUndefined
         | Inr True \<Rightarrow>
             (case resolve_handler handler context of
                Inl e \<Rightarrow> Inl e
              | Inr handlerObj \<Rightarrow>
                  (case property_key rt (get_prop message ''method'') of
                     Inl e \<Rightarrow> Inl e
                   | Inr k \<Rightarrow>
                       (case get_property handlerObj k of
                          Falsy \<Rightarrow>
                            Inr (method_not_found
                                   (nullish_coalesce (get_prop message ''id'') JNull))
                        | Invocable fn \<Rightarrow>
                            (case fn (get_prop message ''params'') of
                               Inr result \<Rightarrow>
                                 if not_null (get_prop message ''id'')
                                 then Inr (result_message (get_prop message ''id'') result)
                                 else Inr JUndefined
                             | Inl error \<Rightarrow>
                                 if not_null (get_prop message ''id'')
                                 then catch_reply rt (get_prop message ''id'') error
                                 else Inr JUndefined))))))"

text \<open>
  \<^verbatim>\<open>Promise.all\<close> over promises that settle: the values in index order, or the rejection
  of the first promise in index order that is rejected. (It is also the first in time when
  the rejections arise before the first suspension of \<open>onMessage\<close>, as those of the
  factory and of the property key do.)
\<close>

fun promise_all :: "(thrown + 'a) list \<Rightarrow> thrown + 'a list" where
  "promise_all [] = Inr []"
| "promise_all (Inl e # ps) = Inl e"
| "promise_all (Inr v # ps) =
     (case promise_all ps of Inl e \<Rightarrow> Inl e | Inr vs \<Rightarrow> Inr (v # vs))"

text \<open>
  \<^verbatim>\<open>handle(payloadOrString, handler, context)\<close>: how the returned promise settles. A
  JavaScript string is parsed; an array is a batch.
\<close>

definition handle :: "js_runtime \<Rightarrow> jsval \<Rightarrow> 'c handler_arg \<Rightarrow> 'c \<Rightarrow> thrown + jsval" where
  "handle rt payloadOrString handler context =
     (case (case payloadOrString of JStr s \<Rightarrow> json_parse rt s | _ \<Rightarrow> Some payloadOrString) of
        None \<Rightarrow> Inr parse_error
      | Some payload \<Rightarrow>
          (case payload of
             JArr ms \<Rightarrow>
               if ms = [] then Inr invalidRequest
               else
                 (case promise_all (map (onMessage rt handler context) ms) of
                    Inl e \<Rightarrow> Inl e
                  | Inr rs \<Rightarrow>
                      (let responseBatch = filter truthy rs
                       in if length responseBatch > 0 then Inr (JArr responseBatch)
                          else Inr JUndefined))
           | _ \<Rightarrow> onMessage rt handler context payload))"

section \<open>The call tracker: \<^verbatim>\<open>createClient\<close>\<close>

text \<open>
  The state of one client and of one batch accumulator made by its \<^verbatim>\<open>createBatch\<close>:
  \<^item> \<open>pending\<close>: the \<^verbatim>\<open>Map\<close> from id to \<^verbatim>\<open>{resolve, reject}\<close>. Its keys are the strings
    that \<^verbatim>\<open>callImpl\<close> stores; an entry is named by the number of the promise whose
    \<^verbatim>\<open>resolve\<close> and \<^verbatim>\<open>reject\<close> it holds;
  \<^item> \<open>promises\<close>: how many promises \<^verbatim>\<open>callImpl\<close> has created;
  \<^item> \<open>settled\<close>: every call of a \<^verbatim>\<open>resolve\<close> or \<^verbatim>\<open>reject\<close>, in order, with the promise it
    belongs to;
  \<^item> \<open>sent\<close>: every payload handed to the transport's \<^verbatim>\<open>send\<close>, in order;
  \<^item> \<open>batch\<close>: the array \<^verbatim>\<open>batch\<close> of the accumulator.
\<close>

datatype settlement = Resolved jsval | Rejected rpc_error

record client_state =
  pending :: "string \<Rightarrow> nat option"
  promises :: nat
  settled :: "(nat \<times> settlement) list"
  sent :: "jsval list"
  batch :: "jsval list"

text \<open>\<^verbatim>\<open>createClient(transport)\<close> starts with an empty table.\<close>

definition createClient :: client_state where
  "createClient = \<lparr>pending = (\<lambda>k. None), promises = 0, settled = [], sent = [], batch = []\<rparr>"

text \<open>
  \<^verbatim>\<open>pending.get(id)\<close> and \<^verbatim>\<open>pending.delete(id)\<close>. The keys of the table are strings, so only
  a string can be found in it.
\<close>

definition pending_get :: "client_state \<Rightarrow> jsval \<Rightarrow> nat option" where
  "pending_get st id' = (case id' of JStr s \<Rightarrow> pending st s | _ \<Rightarrow> None)"

definition pending_delete :: "jsval \<Rightarrow> client_state \<Rightarrow> client_state" where
  "pending_delete id' st =
     (case id' of JStr s \<Rightarrow> st\<lparr>pending := (pending st)(s := None)\<rparr> | _ \<Rightarrow> st)"

definition resolve :: "nat \<Rightarrow> jsval \<Rightarrow> client_state \<Rightarrow> client_state" where
  "resolve request result st = st\<lparr>settled := settled st @ [(request, Resolved result)]\<rparr>"

definition reject :: "nat \<Rightarrow> rpc_error \<Rightarrow> client_state \<Rightarrow> client_state" where
  "reject request error st = st\<lparr>settled := settled st @ [(request, Rejected error)]\<rparr>"

text \<open>
  \<^verbatim>\<open>new RPCError(error.message, error)\<close>: reading \<^verbatim>\<open>error.message\<close> throws a \<^verbatim>\<open>TypeError\<close>
  when \<^verbatim>\<open>error\<close> is \<^verbatim>\<open>null\<close> or \<^verbatim>\<open>undefined\<close>; \<^verbatim>\<open>super(message)\<close> leaves the message empty
  when the argument is \<^verbatim>\<open>undefined\<close> and converts it to a string otherwise, by the
  conversion that also makes property keys.
\<close>

definition new_RPCError :: "js_runtime \<Rightarrow> jsval \<Rightarrow> thrown + rpc_error" where
  "new_RPCError rt error =
     (if error = JUndefined \<or> error = JNull then Inl (type_error rt)
      else
        (case (if get_prop error ''message'' = JUndefined then Inr []
               else property_key rt (get_prop error ''message'')) of
           Inl e \<Rightarrow> Inl e
         | Inr m \<Rightarrow> Inr (RPCError m error)))"

text \<open>
  \<^verbatim>\<open>function onMessage(message)\<close> of the client. It returns the state it leaves and what it
  throws, if anything. The entry is deleted first and the promise settled after.
\<close>

definition client_onMessage ::
  "js_runtime \<Rightarrow> jsval \<Rightarrow> client_state \<Rightarrow> thrown option \<times> client_state" where
  "client_onMessage rt message st =
     (case js_in rt ''result'' message of
        Inl e \<Rightarrow> (Some e, st)
      | Inr True \<Rightarrow>
          (let id' = get_prop message ''id''; result = get_prop message ''result''
           in case pending_get st id' of
                None \<Rightarrow> (None, st)
              | Some request \<Rightarrow> (None, resolve request result (pending_delete id' st)))
      | Inr False \<Rightarrow>
          (case js_in rt ''error'' message of
             Inl e \<Rightarrow> (Some e, st)
           | Inr False \<Rightarrow> (None, st)
           | Inr True \<Rightarrow>
               (let id' = get_prop message ''id''
                in if not_null id' then
                     (let error = get_prop message ''error''
                      in case pending_get st id' of
                           None \<Rightarrow> (None, st)
                         | Some request \<Rightarrow>
                             (let st1 = pending_delete id' st
                              in case new_RPCError rt error of
                                   Inl e \<Rightarrow> (Some e, st1)
                                 | Inr err \<Rightarrow> (None, reject request err st1)))
                   else (None, st))))"

text \<open>\<^verbatim>\<open>payload.forEach(onMessage)\<close> stops at the first call that throws.\<close>

fun forEach_onMessage ::
  "js_runtime \<Rightarrow> jsval list \<Rightarrow> client_state \<Rightarrow> thrown option \<times> client_state" where
  "forEach_onMessage rt [] st = (None, st)"
| "forEach_onMessage rt (m # ms) st =
     (case client_onMessage rt m st of
        (Some e, st') \<Rightarrow> (Some e, st')
      | (None, st') \<Rightarrow> forEach_onMessage rt ms st')"

definition receive :: "js_runtime \<Rightarrow> jsval \<Rightarrow> client_state \<Rightarrow> thrown option \<times> client_state" where
  "receive rt payload st =
     (case payload of
        JArr ms \<Rightarrow> forEach_onMessage rt ms st
      | _ \<Rightarrow> client_onMessage rt payload st)"

text \<open>
  The two senders that \<^verbatim>\<open>callImpl\<close> and \<^verbatim>\<open>notifyImpl\<close> are given. The transport's \<^verbatim>\<open>send\<close> is
  a parameter \<open>tr\<close>: \<open>tr payload = None\<close> when it returns or resolves, \<open>Some e\<close> when it
  throws or rejects with \<open>e\<close>. The replies that a transport hands to \<^verbatim>\<open>receive\<close>, also
  one that does so before its \<^verbatim>\<open>send\<close> has resolved, are calls of \<open>receive\<close> that follow
  the call of \<open>send\<close> in a run.
\<close>

definition transport_send ::
  "(jsval \<Rightarrow> thrown option) \<Rightarrow> jsval \<Rightarrow> client_state \<Rightarrow> thrown option \<times> client_state" where
  "transport_send tr payload st = (tr payload, st\<lparr>sent := sent st @ [payload]\<rparr>)"

definition addToBatch :: "jsval \<Rightarrow> client_state \<Rightarrow> thrown option \<times> client_state" where
  "addToBatch message st = (None, st\<lparr>batch := batch st @ [message]\<rparr>)"

text \<open>
  What an \<^verbatim>\<open>async\<close> function of the client returns: a promise that is rejected when the
  function throws, that follows the promise the function returns, or that is fulfilled with
  \<^verbatim>\<open>undefined\<close>.
\<close>

datatype promise = Rejected_with thrown | Follows nat | Fulfilled

text \<open>
  \<^verbatim>\<open>callImpl(method, params, send)\<close>; \<open>uuid\<close> is what \<^verbatim>\<open>crypto.randomUUID()\<close> returns in this
  call. The executor of \<^verbatim>\<open>new Promise\<close> runs at once and registers the entry; then
  \<^verbatim>\<open>await send(...)\<close>.
\<close>

definition callImpl ::
  "string \<Rightarrow> string \<Rightarrow> jsval \<Rightarrow> (jsval \<Rightarrow> client_state \<Rightarrow> thrown option \<times> client_state) \<Rightarrow>
   client_state \<Rightarrow> promise \<times> client_state" where
  "callImpl uuid method params send st =
     (let request = promises st;
          st1 = st\<lparr>pending := (pending st)(uuid \<mapsto> request), promises := Suc request\<rparr>
      in case send (JObj [(''jsonrpc'', JStr jsonrpc), (''method'', JStr method),
                          (''params'', params), (''id'', JStr uuid)]) st1 of
           (Some e, st2) \<Rightarrow> (Rejected_with e, st2)
         | (None, st2) \<Rightarrow> (Follows request, st2))"

definition notifyImpl ::
  "string \<Rightarrow> jsval \<Rightarrow> (jsval \<Rightarrow> client_state \<Rightarrow> thrown option \<times> client_state) \<Rightarrow>
   client_state \<Rightarrow> promise \<times> client_state" where
  "notifyImpl method params send st =
     (case send (JObj [(''jsonrpc'', JStr jsonrpc), (''method'', JStr method),
                       (''params'', params)]) st of
        (Some e, st') \<Rightarrow> (Rejected_with e, st')
      | (None, st') \<Rightarrow> (Fulfilled, st'))"

text \<open>The methods of the object that \<^verbatim>\<open>createClient\<close> returns.\<close>

definition call ::
  "(jsval \<Rightarrow> thrown option) \<Rightarrow> string \<Rightarrow> string \<Rightarrow> jsval \<Rightarrow> client_state \<Rightarrow> promise \<times> client_state" where
  "call tr uuid method params st = callImpl uuid method params (transport_send tr) st"

definition notify ::
  "(jsval \<Rightarrow> thrown option) \<Rightarrow> string \<Rightarrow> jsval \<Rightarrow> client_state \<Rightarrow> promise \<times> client_state" where
  "notify tr method params st = notifyImpl method params (transport_send tr) st"

text \<open>\<^verbatim>\<open>createBatch()\<close> and the methods of the accumulator it returns.\<close>

definition createBatch :: "client_state \<Rightarrow> client_state" where
  "createBatch st = st\<lparr>batch := []\<rparr>"

definition batch_call ::
  "string \<Rightarrow> string \<Rightarrow> jsval \<Rightarrow> client_state \<Rightarrow> promise \<times> client_state" where
  "batch_call uuid method params st = callImpl uuid method params addToBatch st"

definition batch_notify :: "string \<Rightarrow> jsval \<Rightarrow> client_state \<Rightarrow> promise \<times> client_state" where
  "batch_notify method params st = notifyImpl method params addToBatch st"

text \<open>
  \<^verbatim>\<open>if (batch.length) { const snapshot = batch.slice(); batch.length = 0; await send(snapshot) }\<close>
\<close>

definition flush :: "(jsval \<Rightarrow> thrown option) \<Rightarrow> client_state \<Rightarrow> promise \<times> client_state" where
  "flush tr st =
     (if length (batch st) \<noteq> 0 then
        (let snapshot = batch st; st1 = st\<lparr>batch := []\<rparr>
         in case transport_send tr (JArr snapshot) st1 of
              (Some e, st2) \<Rightarrow> (Rejected_with e, st2)
            | (None, st2) \<Rightarrow> (Fulfilled, st2))
      else (Fulfilled, st))"

text \<open>A run of the client: any sequence of calls of its methods and of \<^verbatim>\<open>receive\<close>.\<close>

datatype client_op =
    Call string string jsval
  | Notify string jsval
  | Batch_call string string jsval
  | Batch_notify string jsval
  | Flush
  | Receive jsval

fun step :: "js_runtime \<Rightarrow> (jsval \<Rightarrow> thrown option) \<Rightarrow> client_op \<Rightarrow> client_state \<Rightarrow> client_state" where
  "step rt tr (Call uuid method params) st = snd (call tr uuid method params st)"
| "step rt tr (Notify method params) st = snd (notify tr method params st)"
| "step rt tr (Batch_call uuid method params) st = snd (batch_call uuid method params st)"
| "step rt tr (Batch_notify method params) st = snd (batch_notify method params st)"
| "step rt tr Flush st = snd (flush tr st)"
| "step rt tr (Receive payload) st = snd (receive rt payload st)"

fun run :: "js_runtime \<Rightarrow> (jsval \<Rightarrow> thrown option) \<Rightarrow> client_op list \<Rightarrow> client_state \<Rightarrow> client_state" where
  "run rt tr [] st = st"
| "run rt tr (op # ops) st = run rt tr ops (step rt tr op st)"

section \<open>Predicates used to state the properties\<close>

text \<open>
  A reply message as \<^verbatim>\<open>handle\<close> builds them: \<^verbatim>\<open>{jsonrpc: '2.0', id, result}\<close> with an id that is
  neither \<^verbatim>\<open>null\<close> nor \<^verbatim>\<open>undefined\<close>, or \<^verbatim>\<open>{jsonrpc: '2.0', id, error}\<close> whose error object has
  a string \<^verbatim>\<open>message\<close> and a \<^verbatim>\<open>code\<close>. A payload is one reply message or a non-empty array
  of them.
\<close>

definition is_error_object :: "jsval \<Rightarrow> bool" where
  "is_error_object e =
     (case e of
        JObj ps \<Rightarrow>
          (case map_of ps ''message'' of Some (JStr m) \<Rightarrow> True | _ \<Rightarrow> False)
          \<and> map_of ps ''code'' \<noteq> None
      | _ \<Rightarrow> False)"

fun is_reply_message :: "jsval \<Rightarrow> bool" where
  "is_reply_message (JObj [(k1, v), (k2, i), (k3, r)]) =
     (k1 = ''jsonrpc'' \<and> v = JStr ''2.0'' \<and> k2 = ''id''
      \<and> (k3 = ''result'' \<and> not_null i \<or> k3 = ''error'' \<and> is_error_object r))"
| "is_reply_message v = False"


text \<open>
  A request message: the version tag is \<^verbatim>\<open>'2.0'\<close> and \<^verbatim>\<open>method\<close> is a string. Its method is
  known to a handler map when the lookup finds a truthy value.
\<close>

definition is_request :: "jsval \<Rightarrow> bool" where
  "is_request m =
     (optional_prop m ''jsonrpc'' = JStr ''2.0''
      \<and> (case get_prop m ''method'' of JStr name \<Rightarrow> True | _ \<Rightarrow> False))"

definition method_known :: "handler_obj \<Rightarrow> jsval \<Rightarrow> bool" where
  "method_known handlerObj m =
     (case get_prop m ''method'' of
        JStr name \<Rightarrow>
          (case get_property handlerObj name of Falsy \<Rightarrow> False | Invocable fn \<Rightarrow> True)
      | _ \<Rightarrow> False)"


text \<open>
  The two conversions of the runtime that \<^verbatim>\<open>onMessage\<close> makes outside its \<^verbatim>\<open>try\<close> block
  succeed: the \<^verbatim>\<open>method\<close> of a message converts to a property key (a string does), and
  every value that a handler of the map throws and that is no \<^verbatim>\<open>Error\<close> converts in
  \<^verbatim>\<open>'' + error\<close> (a string does).
\<close>

definition key_converts :: "js_runtime \<Rightarrow> jsval \<Rightarrow> bool" where
  "key_converts rt message =
     (case property_key rt (get_prop message ''method'') of Inr k \<Rightarrow> True | Inl e \<Rightarrow> False)"

definition thrown_converts :: "js_runtime \<Rightarrow> handler_obj \<Rightarrow> bool" where
  "thrown_converts rt handlerObj =
     (\<forall>k fn params v. get_property handlerObj k = Invocable fn
          \<and> fn params = Inl (Thrown_Value v) \<longrightarrow>
        (case string_concat rt v of Inr s \<Rightarrow> True | Inl e \<Rightarrow> False))"


text \<open>Whether an operation hands \<^verbatim>\<open>receive\<close> a message whose id is the string \<open>uuid\<close>.\<close>

fun receives_id :: "string \<Rightarrow> client_op \<Rightarrow> bool" where
  "receives_id uuid (Receive (JArr ms)) = list_ex (\<lambda>m. get_prop m ''id'' = JStr uuid) ms"
| "receives_id uuid (Receive message) = (get_prop message ''id'' = JStr uuid)"
| "receives_id uuid op = False"

text \<open>
  The message that a \<^verbatim>\<open>call\<close> or \<^verbatim>\<open>notify\<close> on the batch accumulator hands to
  \<^verbatim>\<open>addToBatch\<close>; \<open>None\<close> for every other operation.
\<close>

fun batched_message :: "client_op \<Rightarrow> jsval option" where
  "batched_message (Batch_call uuid method params) =
     Some (JObj [(''jsonrpc'', JStr jsonrpc), (''method'', JStr method),
                 (''params'', params), (''id'', JStr uuid)])"
| "batched_message (Batch_notify method params) =
     Some (JObj [(''jsonrpc'', JStr jsonrpc), (''method'', JStr method), (''params'', params)])"
| "batched_message op = None"

section \<open>Worked examples\<close>

text \<open>
  A runtime, a handler map, transports and messages for the worked examples. The runtime
  stands in for the engine: it parses no text but \<^verbatim>\<open>[]\<close> and converts every number, array
  and object to \<^verbatim>\<open>[object Object]\<close>; no example below converts one. The handler map is a
  plain object with four methods of its own; of what it inherits from \<^verbatim>\<open>Object.prototype\<close>
  only \<^verbatim>\<open>toString\<close> is listed.
\<close>

definition example_runtime :: js_runtime where
  "example_runtime =
     \<lparr>json_parse = (\<lambda>s. if s = ''[]'' then Some (JArr []) else None),
      to_string = (\<lambda>v. Inr ''[object Object]''),
      concat_string = (\<lambda>v. Inr ''[object Object]''),
      type_error = Thrown_Error ''TypeError''\<rparr>"

definition example_add :: "jsval \<Rightarrow> thrown + jsval" where
  "example_add params =
     (case (get_prop params ''x'', get_prop params ''y'') of
        (JNum x, JNum y) \<Rightarrow> Inr (JNum (x + y))
      | _ \<Rightarrow> Inl (Thrown_Error ''x and y must be numbers''))"

definition example_handler :: handler_obj where
  "example_handler =
     \<lparr>own_props = map_of
        [(''add'', Invocable example_add),
         (''divide'', Invocable (\<lambda>params. Inl (Thrown_RPCError
            (RPCError ''Division by zero''
               (JObj [(''code'', JNum 666), (''data'', JStr ''extra'')]))))),
         (''throwsBasicError'', Invocable (\<lambda>params. Inl (Thrown_Error ''basic error''))),
         (''throwsString'', Invocable (\<lambda>params. Inl (Thrown_Value (JStr ''oops''))))],
      inherited_props = map_of
        [(''toString'', Invocable (\<lambda>params. Inr (JStr ''[object Object]'')))]\<rparr>"

definition example_request :: "jsval \<Rightarrow> string \<Rightarrow> jsval" where
  "example_request id' name =
     JObj [(''jsonrpc'', JStr ''2.0''), (''id'', id'), (''method'', JStr name),
           (''params'', JObj [(''x'', JNum 1), (''y'', JNum 2)])]"

definition example_notification :: "string \<Rightarrow> jsval" where
  "example_notification name =
     JObj [(''jsonrpc'', JStr ''2.0''), (''method'', JStr name),
           (''params'', JObj [(''x'', JNum 1), (''y'', JNum 2)])]"

definition example_transport :: "jsval \<Rightarrow> thrown option" where
  "example_transport payload = None"

definition failing_transport :: "jsval \<Rightarrow> thrown option" where
  "failing_transport payload = Some (Thrown_Error ''socket closed'')"

definition example_result :: "jsval \<Rightarrow> jsval \<Rightarrow> jsval" where
  "example_result id' result =
     JObj [(''jsonrpc'', JStr ''2.0''), (''id'', id'), (''result'', result)]"



definition example_batch_ops :: "client_op list" where
  "example_batch_ops =
     [Batch_notify ''add'' (JArr [JNum 1, JNum 2]),
      Batch_call ''1'' ''add'' (JArr [JNum 3, JNum 4]),
      Batch_call ''2'' ''add'' (JArr [JNum 5, JNum 6])]"

section \<open>Properties of the dispatcher\<close>

subsection \<open>Auxiliary facts\<close>

lemma jsonrpc_tag_is_object:
  "optional_prop message ''jsonrpc'' = JStr t \<Longrightarrow> \<exists>ps. message = JObj ps"
  by (cases message) (simp_all add: optional_prop_def)

lemma method_in_message:
  assumes "get_prop message ''method'' = JStr name"
  shows "js_in rt ''method'' message = Inr True"
proof (cases message)
  case (JObj ps)
  with assms obtain v where "map_of ps ''method'' = Some v"
    by (auto split: option.splits)
  then have "(''method'', v) \<in> set ps" by (rule map_of_SomeD)
  then have "''method'' \<in> fst ` set ps" by force
  with JObj show ?thesis by (simp add: js_in_def)
qed (use assms in simp_all)

lemma handle_single:
  assumes "optional_prop message ''jsonrpc'' = JStr t"
  shows "handle rt message handler ctx = onMessage rt handler ctx message"
proof -
  from assms obtain ps where "message = JObj ps" using jsonrpc_tag_is_object by blast
  then show ?thesis by (simp add: handle_def)
qed

lemma onMessage_request:
  assumes "optional_prop message ''jsonrpc'' = JStr ''2.0''"
    and "get_prop message ''method'' = JStr name"
    and "resolve_handler handler ctx = Inr handlerObj"
  shows "onMessage rt handler ctx message =
    (case get_property handlerObj name of
       Falsy \<Rightarrow> Inr (method_not_found (nullish_coalesce (get_prop message ''id'') JNull))
     | Invocable fn \<Rightarrow>
         (case fn (get_prop message ''params'') of
            Inr result \<Rightarrow>
              if not_null (get_prop message ''id'')
              then Inr (result_message (get_prop message ''id'') result)
              else Inr JUndefined
          | Inl error \<Rightarrow>
              if not_null (get_prop message ''id'')
              then catch_reply rt (get_prop message ''id'') error
              else Inr JUndefined))"
  using assms method_in_message[OF assms(2), of rt]
  by (simp add: onMessage_def property_key_def primitive_string_def)

lemmas ex_simps = example_request_def example_notification_def example_handler_def
  example_add_def optional_prop_def get_property_def resolve_handler_def not_null_def
  RPCError_def nullish_coalesce_def

lemma is_reply_simps:
  "is_reply_message invalidRequest"
  "is_reply_message parse_error"
  "is_reply_message (method_not_found i)"
  "not_null i \<Longrightarrow> is_reply_message (result_message i r)"
  "is_reply_message (error_message i m c d)"
  by (simp_all add: invalidRequest_def parse_error_def method_not_found_def result_message_def
      error_message_def jsonrpc_def is_error_object_def)

lemma reply_id_simps:
  "get_prop (method_not_found i) ''id'' = i"
  "get_prop (result_message i r) ''id'' = i"
  "get_prop (error_message i m c d) ''id'' = i"
  by (simp_all add: method_not_found_def result_message_def error_message_def)

lemma reply_truthy: "is_reply_message v \<Longrightarrow> truthy v"
  by (cases v rule: is_reply_message.cases) simp_all

lemma catch_reply_ok:
  assumes "\<And>v. error = Thrown_Value v \<Longrightarrow> \<exists>s. string_concat rt v = Inr s"
  shows "\<exists>r. catch_reply rt i error = Inr r \<and> is_reply_message r \<and> get_prop r ''id'' = i"
proof (cases error)
  case (Thrown_Value v)
  with assms obtain s where "string_concat rt v = Inr s" by blast
  with Thrown_Value show ?thesis
    by (simp add: catch_reply_def is_reply_simps reply_id_simps)
qed (simp_all add: catch_reply_def is_reply_simps reply_id_simps)

lemma thrown_convertsD:
  assumes "thrown_converts rt handlerObj" and "get_property handlerObj k = Invocable fn"
    and "fn params = Inl (Thrown_Value v)"
  shows "\<exists>s. string_concat rt v = Inr s"
proof -
  from assms have "case string_concat rt v of Inr s \<Rightarrow> True | Inl e \<Rightarrow> False"
    unfolding thrown_converts_def by blast
  then show ?thesis by (cases "string_concat rt v") simp_all
qed



lemma example_runtime_converts:
  "key_converts example_runtime m" "thrown_converts example_runtime handlerObj"
  by (auto simp: key_converts_def thrown_converts_def property_key_def string_concat_def
      example_runtime_def split: option.splits)







lemma onMessage_batch_element:
  assumes "resolve_handler handler ctx = Inr handlerObj"
    and "thrown_converts rt handlerObj"
    and "is_request m"
    and "not_null (get_prop m ''id'') \<or> method_known handlerObj m"
  shows "\<exists>v. onMessage rt handler ctx m = Inr v \<and>
           (if not_null (get_prop m ''id'')
            then is_reply_message v \<and> get_prop v ''id'' = get_prop m ''id''
            else v = JUndefined)"
proof -
  from assms(3) obtain name where tag: "optional_prop m ''jsonrpc'' = JStr ''2.0''"
    and name: "get_prop m ''method'' = JStr name"
    by (auto simp: is_request_def split: jsval.splits)
  note eq = onMessage_request[OF tag name assms(1), of rt]
  show ?thesis
  proof (cases "get_property handlerObj name")
    case Falsy
    with assms(4) name have nn: "not_null (get_prop m ''id'')"
      by (simp add: method_known_def)
    then have "nullish_coalesce (get_prop m ''id'') JNull = get_prop m ''id''"
      by (simp add: nullish_coalesce_def not_null_def)
    with Falsy nn show ?thesis by (simp add: eq is_reply_simps reply_id_simps)
  next
    case (Invocable fn)
    show ?thesis
    proof (cases "fn (get_prop m ''params'')")
      case (Inr result)
      with Invocable show ?thesis by (simp add: eq is_reply_simps reply_id_simps)
    next
      case (Inl error)
      have "\<exists>r. catch_reply rt (get_prop m ''id'') error = Inr r \<and> is_reply_message r
                \<and> get_prop r ''id'' = get_prop m ''id''"
        using thrown_convertsD[OF assms(2) Invocable] Inl by (intro catch_reply_ok) simp
      with Invocable Inl show ?thesis by (auto simp: eq)
    qed
  qed
qed

lemma promise_all_batch:
  assumes "\<And>m. m \<in> set ms \<Longrightarrow>
             \<exists>v. f m = Inr v \<and> (if has_id m then is_reply_message v \<and> get_prop v ''id'' = get_prop m ''id''
                                else v = JUndefined)"
  shows "\<exists>vs. promise_all (map f ms) = Inr vs
           \<and> list_all is_reply_message (filter truthy vs)
           \<and> map (\<lambda>r. get_prop r ''id'') (filter truthy vs)
               = map (\<lambda>m. get_prop m ''id'') (filter has_id ms)"
  using assms
proof (induction ms)
  case Nil
  then show ?case by simp
next
  case (Cons m ms)
  from Cons.prems[of m] obtain v where v: "f m = Inr v"
    "if has_id m then is_reply_message v \<and> get_prop v ''id'' = get_prop m ''id'' else v = JUndefined"
    by auto
  from Cons.IH Cons.prems obtain vs where vs: "promise_all (map f ms) = Inr vs"
    "list_all is_reply_message (filter truthy vs)"
    "map (\<lambda>r. get_prop r ''id'') (filter truthy vs) = map (\<lambda>m. get_prop m ''id'') (filter has_id ms)"
    by (meson list.set_intros(2))
  show ?case
  proof (cases "has_id m")
    case True
    with v have "truthy v" "is_reply_message v" "get_prop v ''id'' = get_prop m ''id''"
      by (simp_all add: reply_truthy)
    with True v(1) vs show ?thesis by simp
  next
    case False
    with v have "v = JUndefined" by simp
    with False v(1) vs show ?thesis by simp
  qed
qed

subsection \<open>A single message\<close>

text \<open>
  Claim C1 (the code departs from the claim). A request naming a method that the handler map
  lacks gets a Method-not-found reply, code \<open>-32601\<close>, under its own id: that half of the
  claim holds, as the second equation shows for id \<open>1\<close>. A notification naming such a
  method should get no reply. The lookup branch returns before the test
  \<^verbatim>\<open>message.id != null\<close> that guards the two other branches, and writes
  \<^verbatim>\<open>id: message.id ?? null\<close>: \<^verbatim>\<open>handle\<close> answers the notification
  \<^verbatim>\<open>{jsonrpc: '2.0', method: 'nope', params: {x: 1, y: 2}}\<close> with a Method-not-found reply
  whose id is \<^verbatim>\<open>null\<close>, not with \<^verbatim>\<open>undefined\<close>.
\<close>

theorem handle_unknown_method_notification:
  "handle example_runtime (example_notification ''nope'') (Handler_map example_handler) ()
     = Inr (JObj [(''jsonrpc'', JStr ''2.0''), (''id'', JNull),
                  (''error'', JObj [(''code'', JNum (- 32601)),
                                    (''message'', JStr ''Method not found'')])])
   \<and> handle example_runtime (example_request (JNum 1) ''nope'') (Handler_map example_handler) ()
     = Inr (JObj [(''jsonrpc'', JStr ''2.0''), (''id'', JNum 1),
                  (''error'', JObj [(''code'', JNum (- 32601)),
                                    (''message'', JStr ''Method not found'')])])"
  by (simp add: handle_def onMessage_def js_in_def property_key_def primitive_string_def
      method_not_found_def jsonrpc_def ex_simps)

text \<open>
  Claim C4. For a message tagged \<^verbatim>\<open>'2.0'\<close> whose method the handler map has, the handler is
  applied to the message's \<^verbatim>\<open>params\<close> as they are. With an id that is neither \<^verbatim>\<open>null\<close> nor
  absent, \<^verbatim>\<open>handle\<close> returns the result message with that id and the value the handler
  returned; with a null or absent id it returns \<^verbatim>\<open>undefined\<close>, whatever the handler did.
\<close>

theorem handle_known_method:
  assumes "optional_prop message ''jsonrpc'' = JStr ''2.0''"
    and "get_prop message ''method'' = JStr name"
    and "resolve_handler handler ctx = Inr handlerObj"
    and "get_property handlerObj name = Invocable fn"
  shows "(not_null (get_prop message ''id'') \<and> fn (get_prop message ''params'') = Inr result \<longrightarrow>
            handle rt message handler ctx
              = Inr (result_message (get_prop message ''id'') result))
       \<and> (\<not> not_null (get_prop message ''id'') \<longrightarrow>
            handle rt message handler ctx = Inr JUndefined)"
  using assms
  by (auto simp: handle_single[OF assms(1)] onMessage_request[OF assms(1-3)] split: sum.splits)

text \<open>
  Claim C4 at the call \<^verbatim>\<open>add({x: 1, y: 2})\<close> with id \<^verbatim>\<open>'a'\<close>, and at the same notification.
\<close>

theorem handle_known_method_witness:
  "(handle example_runtime (example_request (JStr ''a'') ''add'') (Handler_map example_handler) ()
      = Inr (JObj [(''jsonrpc'', JStr ''2.0''), (''id'', JStr ''a''), (''result'', JNum 3)]))
   \<and> (handle example_runtime (example_notification ''add'') (Handler_map example_handler) ()
      = Inr JUndefined)"
  using handle_known_method[where rt = example_runtime and message = "example_request (JStr ''a'') ''add''"
          and name = "''add''" and handler = "Handler_map example_handler" and ctx = "()"
          and handlerObj = example_handler and fn = example_add and result = "JNum 3"]
        handle_known_method[where rt = example_runtime and message = "example_notification ''add''"
          and name = "''add''" and handler = "Handler_map example_handler" and ctx = "()"
          and handlerObj = example_handler and fn = example_add]
  by (simp add: ex_simps result_message_def jsonrpc_def)

text \<open>
  Claim C5. When the handler throws or rejects and the id is neither \<^verbatim>\<open>null\<close> nor absent,
  \<^verbatim>\<open>handle\<close> returns an error message with that id: code and data of the \<^verbatim>\<open>RPCError\<close> when
  one was thrown, code \<open>0\<close> and data \<^verbatim>\<open>undefined\<close> otherwise; its text is the message of the
  thrown \<^verbatim>\<open>Error\<close>, or \<^verbatim>\<open>'' + error\<close> for a value that is no \<^verbatim>\<open>Error\<close>. With a null or
  absent id the failure is swallowed.
\<close>

theorem handle_handler_failure:
  assumes "optional_prop message ''jsonrpc'' = JStr ''2.0''"
    and "get_prop message ''method'' = JStr name"
    and "resolve_handler handler ctx = Inr handlerObj"
    and "get_property handlerObj name = Invocable fn"
    and "fn (get_prop message ''params'') = Inl error"
  shows "(not_null (get_prop message ''id'') \<and> error = Thrown_RPCError e \<longrightarrow>
            handle rt message handler ctx
              = Inr (error_message (get_prop message ''id'') (err_message e) (err_code e) (err_data e)))
       \<and> (not_null (get_prop message ''id'') \<and> error = Thrown_Error m \<longrightarrow>
            handle rt message handler ctx
              = Inr (error_message (get_prop message ''id'') m (JNum 0) JUndefined))
       \<and> (not_null (get_prop message ''id'') \<and> error = Thrown_Value v
            \<and> string_concat rt v = Inr s \<longrightarrow>
            handle rt message handler ctx
              = Inr (error_message (get_prop message ''id'') s (JNum 0) JUndefined))
       \<and> (\<not> not_null (get_prop message ''id'') \<longrightarrow>
            handle rt message handler ctx = Inr JUndefined)"
  using assms(4,5)
  by (simp add: handle_single[OF assms(1)] onMessage_request[OF assms(1-3)] catch_reply_def)

text \<open>
  Claim C5 at a handler that throws an \<^verbatim>\<open>RPCError\<close> with code \<open>666\<close>, one that throws an
  \<^verbatim>\<open>Error\<close>, one that throws a string, and at a notification of a throwing method.
\<close>

theorem handle_handler_failure_witness:
  "(handle example_runtime (example_request (JNum 5) ''divide'') (Handler_map example_handler) ()
      = Inr (JObj [(''jsonrpc'', JStr ''2.0''), (''id'', JNum 5),
                   (''error'', JObj [(''message'', JStr ''Division by zero''),
                                     (''code'', JNum 666), (''data'', JStr ''extra'')])]))
   \<and> (handle example_runtime (example_request (JNum 0) ''throwsBasicError'') (Handler_map example_handler) ()
      = Inr (JObj [(''jsonrpc'', JStr ''2.0''), (''id'', JNum 0),
                   (''error'', JObj [(''message'', JStr ''basic error''),
                                     (''code'', JNum 0), (''data'', JUndefined)])]))
   \<and> (handle example_runtime (example_request (JNum 0) ''throwsString'') (Handler_map example_handler) ()
      = Inr (JObj [(''jsonrpc'', JStr ''2.0''), (''id'', JNum 0),
                   (''error'', JObj [(''message'', JStr ''oops''),
                                     (''code'', JNum 0), (''data'', JUndefined)])]))
   \<and> (handle example_runtime (example_notification ''throwsBasicError'') (Handler_map example_handler) ()
      = Inr JUndefined)"
  using handle_handler_failure[where rt = example_runtime and message = "example_request (JNum 5) ''divide''"
          and name = "''divide''" and handler = "Handler_map example_handler" and ctx = "()"
          and handlerObj = example_handler
          and error = "Thrown_RPCError (RPCError ''Division by zero''
               (JObj [(''code'', JNum 666), (''data'', JStr ''extra'')]))"
          and e = "RPCError ''Division by zero''
               (JObj [(''code'', JNum 666), (''data'', JStr ''extra'')])"]
        handle_handler_failure[where rt = example_runtime and message = "example_request (JNum 0) ''throwsBasicError''"
          and name = "''throwsBasicError''" and handler = "Handler_map example_handler"
          and ctx = "()" and handlerObj = example_handler
          and error = "Thrown_Error ''basic error''" and m = "''basic error''"]
        handle_handler_failure[where rt = example_runtime and message = "example_request (JNum 0) ''throwsString''"
          and name = "''throwsString''" and handler = "Handler_map example_handler"
          and ctx = "()" and handlerObj = example_handler
          and error = "Thrown_Value (JStr ''oops'')" and v = "JStr ''oops''" and s = "''oops''"]
        handle_handler_failure[where rt = example_runtime and message = "example_notification ''throwsBasicError''"
          and name = "''throwsBasicError''" and handler = "Handler_map example_handler"
          and ctx = "()" and handlerObj = example_handler
          and error = "Thrown_Error ''basic error''"]
  by (simp add: ex_simps error_message_def jsonrpc_def string_concat_def primitive_string_def)

text \<open>
  Claim C9. When the method name is no own property of the handler map but an inherited one
  whose value is truthy, \<^verbatim>\<open>handle\<close> returns no Method-not-found reply: it calls the inherited
  value with the message's \<^verbatim>\<open>params\<close> and replies as for a handler.
\<close>

theorem handle_inherited_property:
  assumes "optional_prop message ''jsonrpc'' = JStr ''2.0''"
    and "get_prop message ''method'' = JStr name"
    and "resolve_handler handler ctx = Inr handlerObj"
    and "own_props handlerObj name = None"
    and "inherited_props handlerObj name = Some (Invocable fn)"
  shows "(\<forall>i. handle rt message handler ctx \<noteq> Inr (method_not_found i))
       \<and> handle rt message handler ctx =
           (case fn (get_prop message ''params'') of
              Inr result \<Rightarrow>
                if not_null (get_prop message ''id'')
                then Inr (result_message (get_prop message ''id'') result)
                else Inr JUndefined
            | Inl error \<Rightarrow>
                if not_null (get_prop message ''id'')
                then catch_reply rt (get_prop message ''id'') error
                else Inr JUndefined)"
proof -
  have g: "get_property handlerObj name = Invocable fn"
    using assms(4,5) by (simp add: get_property_def)
  have eq: "handle rt message handler ctx =
           (case fn (get_prop message ''params'') of
              Inr result \<Rightarrow>
                if not_null (get_prop message ''id'')
                then Inr (result_message (get_prop message ''id'') result)
                else Inr JUndefined
            | Inl error \<Rightarrow>
                if not_null (get_prop message ''id'')
                then catch_reply rt (get_prop message ''id'') error
                else Inr JUndefined)"
    by (simp add: handle_single[OF assms(1)] onMessage_request[OF assms(1-3)] g)
  have "handle rt message handler ctx \<noteq> Inr (method_not_found i)" for i
    unfolding eq
    by (auto simp: method_not_found_def result_message_def error_message_def catch_reply_def
        split: sum.splits thrown.splits)
  with eq show ?thesis by blast
qed

text \<open>
  Claim C9 at the method name \<^verbatim>\<open>toString\<close>.
\<close>

theorem handle_inherited_property_witness:
  "handle example_runtime (example_request (JNum 1) ''toString'') (Handler_map example_handler) ()
      = Inr (JObj [(''jsonrpc'', JStr ''2.0''), (''id'', JNum 1),
                   (''result'', JStr ''[object Object]'')])"
  using handle_inherited_property[where rt = example_runtime and message = "example_request (JNum 1) ''toString''"
          and name = "''toString''" and handler = "Handler_map example_handler" and ctx = "()"
          and handlerObj = example_handler
          and fn = "\<lambda>params. Inr (JStr ''[object Object]'')"]
  by (simp add: ex_simps result_message_def jsonrpc_def)

subsection \<open>Rejection and the version tag\<close>







subsection \<open>Batches\<close>

text \<open>
  Claim C6, as amended. For a non-empty batch of request messages in which every notification
  names a method the handler map has, the reply holds exactly one reply message for each
  element whose id is neither \<^verbatim>\<open>null\<close> nor absent, in the order of the requests and each
  under its request's id; the other elements contribute nothing, and when no element has
  an id the reply is \<^verbatim>\<open>undefined\<close>. What a notification of an unknown method contributes
  is the subject of C1 and left out here; \<^verbatim>\<open>'' + error\<close> is taken to succeed on what the
  handlers throw.
\<close>

theorem handle_batch_of_requests:
  assumes "ms \<noteq> []"
    and "resolve_handler handler ctx = Inr handlerObj"
    and "thrown_converts rt handlerObj"
    and "\<forall>m \<in> set ms. is_request m \<and> (not_null (get_prop m ''id'') \<or> method_known handlerObj m)"
  shows "\<exists>rs. handle rt (JArr ms) handler ctx = Inr (if rs = [] then JUndefined else JArr rs)
           \<and> list_all is_reply_message rs
           \<and> map (\<lambda>r. get_prop r ''id'') rs
               = map (\<lambda>m. get_prop m ''id'') (filter (\<lambda>m. not_null (get_prop m ''id'')) ms)"
proof -
  obtain vs where vs: "promise_all (map (onMessage rt handler ctx) ms) = Inr vs"
    "list_all is_reply_message (filter truthy vs)"
    "map (\<lambda>r. get_prop r ''id'') (filter truthy vs)
       = map (\<lambda>m. get_prop m ''id'') (filter (\<lambda>m. not_null (get_prop m ''id'')) ms)"
    using promise_all_batch[of ms "onMessage rt handler ctx" "\<lambda>m. not_null (get_prop m ''id'')"]
      onMessage_batch_element[OF assms(2,3)] assms(4)
    by blast
  have "handle rt (JArr ms) handler ctx
          = Inr (if filter truthy vs = [] then JUndefined else JArr (filter truthy vs))"
    using assms(1) vs(1) by (simp add: handle_def Let_def)
  with vs(2,3) show ?thesis by blast
qed

text \<open>
  The amended Claim C6 at a batch of a notification, a call and a call of an unknown method,
  and at a batch of two notifications.
\<close>

theorem handle_batch_of_requests_witness:
  "handle example_runtime
     (JArr [example_notification ''add'', example_request (JNum 2) ''add'',
            example_request (JStr ''b'') ''nope''])
     (Handler_map example_handler) ()
   = Inr (JArr [result_message (JNum 2) (JNum 3), method_not_found (JStr ''b'')])
   \<and> handle example_runtime
     (JArr [example_notification ''add'', example_notification ''throwsBasicError''])
     (Handler_map example_handler) ()
   = Inr JUndefined"
proof -
  have a: "\<exists>rs. handle example_runtime
     (JArr [example_notification ''add'', example_request (JNum 2) ''add'',
            example_request (JStr ''b'') ''nope''])
     (Handler_map example_handler) () = Inr (if rs = [] then JUndefined else JArr rs)
           \<and> list_all is_reply_message rs
           \<and> map (\<lambda>r. get_prop r ''id'') rs
               = map (\<lambda>m. get_prop m ''id'') (filter (\<lambda>m. not_null (get_prop m ''id''))
                  [example_notification ''add'', example_request (JNum 2) ''add'',
            example_request (JStr ''b'') ''nope''])"
    by (rule handle_batch_of_requests[where handlerObj = example_handler])
       (simp_all add: resolve_handler_def example_runtime_converts is_request_def
          method_known_def ex_simps)
  have b: "\<exists>rs. handle example_runtime
     (JArr [example_notification ''add'', example_notification ''throwsBasicError''])
     (Handler_map example_handler) () = Inr (if rs = [] then JUndefined else JArr rs)
           \<and> list_all is_reply_message rs
           \<and> map (\<lambda>r. get_prop r ''id'') rs
               = map (\<lambda>m. get_prop m ''id'') (filter (\<lambda>m. not_null (get_prop m ''id''))
                  [example_notification ''add'', example_notification ''throwsBasicError''])"
    by (rule handle_batch_of_requests[where handlerObj = example_handler])
       (simp_all add: resolve_handler_def example_runtime_converts is_request_def
          method_known_def ex_simps)
  have c: "handle example_runtime
     (JArr [example_notification ''add'', example_request (JNum 2) ''add'',
            example_request (JStr ''b'') ''nope''])
     (Handler_map example_handler) ()
   = Inr (JArr [result_message (JNum 2) (JNum 3), method_not_found (JStr ''b'')])"
    by (simp add: handle_def onMessage_def js_in_def property_key_def primitive_string_def
        ex_simps result_message_def method_not_found_def)
  from b have d: "handle example_runtime
     (JArr [example_notification ''add'', example_notification ''throwsBasicError''])
     (Handler_map example_handler) ()
   = Inr JUndefined"
    by (simp add: ex_simps)
  from a c d show ?thesis by simp
qed

text \<open>
  Claim C6 as stated fails: a batch element with id \<open>7\<close> and the version tag \<^verbatim>\<open>'1.0'\<close> is
  no notification, and its reply carries the id \<^verbatim>\<open>null\<close>.
\<close>

theorem handle_batch_invalid_element:
  "handle example_runtime
     (JArr [JObj [(''jsonrpc'', JStr ''1.0''), (''id'', JNum 7), (''method'', JStr ''add'')]])
     (Handler_map example_handler) ()
   = Inr (JArr [JObj [(''jsonrpc'', JStr ''2.0''), (''id'', JNull),
                      (''error'', JObj [(''code'', JNum (- 32600)),
                                        (''message'', JStr ''Invalid Request'')])]])"
  by (simp add: handle_def onMessage_def optional_prop_def invalidRequest_def jsonrpc_def)

section \<open>Properties of the call tracker\<close>

subsection \<open>Auxiliary facts\<close>

lemma pending_delete_simps:
  "pending (pending_delete (JStr i) st) = (pending st)(i := None)"
  "settled (pending_delete id' st) = settled st"
  "promises (pending_delete id' st) = promises st"
  "sent (pending_delete id' st) = sent st"
  "batch (pending_delete id' st) = batch st"
  by (simp_all add: pending_delete_def split: jsval.splits)

lemma pending_get_Some:
  "pending_get st id' = Some p \<longleftrightarrow> (\<exists>i. id' = JStr i \<and> pending st i = Some p)"
  by (cases id') (simp_all add: pending_get_def)

lemma onMessage_cases:
  "client_onMessage rt message st = (r, st') \<Longrightarrow>
     st' = st
     \<or> (\<exists>i p v. get_prop message ''id'' = JStr i \<and> pending st i = Some p
           \<and> st' = resolve p v (pending_delete (JStr i) st))
     \<or> (\<exists>i p. get_prop message ''id'' = JStr i \<and> pending st i = Some p
           \<and> st' = pending_delete (JStr i) st)
     \<or> (\<exists>i p e. get_prop message ''id'' = JStr i \<and> pending st i = Some p
           \<and> st' = reject p e (pending_delete (JStr i) st))"
  by (auto simp: client_onMessage_def Let_def pending_get_Some
      split: sum.splits bool.splits option.splits if_splits)










lemma snd_callImpl:
  "snd (callImpl uuid meth params send st) =
     snd (send (JObj [(''jsonrpc'', JStr jsonrpc), (''method'', JStr meth),
                      (''params'', params), (''id'', JStr uuid)])
            (st\<lparr>pending := (pending st)(uuid \<mapsto> promises st), promises := Suc (promises st)\<rparr>))"
  by (simp add: callImpl_def Let_def split: prod.splits option.splits)

lemma snd_notifyImpl:
  "snd (notifyImpl meth params send st) =
     snd (send (JObj [(''jsonrpc'', JStr jsonrpc), (''method'', JStr meth),
                      (''params'', params)]) st)"
  by (simp add: notifyImpl_def split: prod.splits option.splits)

lemma snd_flush:
  "snd (flush tr st) =
     (if batch st = [] then st else snd (transport_send tr (JArr (batch st)) (st\<lparr>batch := []\<rparr>)))"
  by (simp add: flush_def Let_def split: prod.splits option.splits)






lemma run_append: "run rt tr (xs @ ys) st = run rt tr ys (run rt tr xs st)"
  by (induction xs arbitrary: st) simp_all

lemma step_batched:
  assumes "batched_message op = Some m"
  shows "sent (step rt tr op st) = sent st" and "batch (step rt tr op st) = batch st @ [m]"
  using assms
  by (cases op; simp add: batch_call_def batch_notify_def snd_callImpl snd_notifyImpl
      addToBatch_def)+

lemma run_batched:
  assumes "\<forall>op \<in> set ops. batched_message op \<noteq> None"
  shows "sent (run rt tr ops st) = sent st
       \<and> batch (run rt tr ops st) = batch st @ List.map_filter batched_message ops"
  using assms
proof (induction ops arbitrary: st)
  case Nil
  then show ?case by simp
next
  case (Cons op ops)
  then obtain m where m: "batched_message op = Some m" by auto
  from Cons.IH[of "step rt tr op st"] Cons.prems step_batched[OF m, of rt tr st] m
  show ?case by simp
qed

lemma step_keeps_entry:
  assumes "pending st uuid \<noteq> None" and "\<not> receives_id uuid op"
  shows "pending (step rt tr op st) uuid \<noteq> None"
proof -
  have on: "pending (snd (client_onMessage rt m s)) uuid \<noteq> None"
    if "pending s uuid \<noteq> None" "get_prop m ''id'' \<noteq> JStr uuid" for m s
  proof -
    obtain r s' where eq: "client_onMessage rt m s = (r, s')"
      by (cases "client_onMessage rt m s")
    from onMessage_cases[OF eq] that have "pending s' uuid \<noteq> None"
      by (auto simp: pending_delete_simps resolve_def reject_def)
    with eq show ?thesis by simp
  qed
  have each: "pending (snd (forEach_onMessage rt ms s)) uuid \<noteq> None"
    if "pending s uuid \<noteq> None" "\<not> list_ex (\<lambda>m. get_prop m ''id'' = JStr uuid) ms" for ms s
    using that
  proof (induction ms arbitrary: s)
    case Nil
    then show ?case by simp
  next
    case (Cons m ms)
    obtain r s' where eq: "client_onMessage rt m s = (r, s')"
      by (cases "client_onMessage rt m s")
    from on[of s m] Cons.prems eq have "pending s' uuid \<noteq> None" by simp
    with Cons.IH[of s'] Cons.prems(2) eq show ?case by (cases r) simp_all
  qed
  show ?thesis
  proof (cases op)
    case (Receive payload)
    with assms on each show ?thesis by (cases payload) (simp_all add: receive_def)
  qed (use assms(1) in \<open>simp_all add: call_def notify_def batch_call_def batch_notify_def
      snd_callImpl snd_notifyImpl snd_flush transport_send_def addToBatch_def\<close>)
qed

lemma run_keeps_entry:
  "pending st uuid \<noteq> None \<Longrightarrow> \<forall>op \<in> set ops. \<not> receives_id uuid op \<Longrightarrow>
     pending (run rt tr ops st) uuid \<noteq> None"
proof (induction ops arbitrary: st)
  case Nil
  then show ?case by simp
next
  case (Cons op ops)
  from Cons.prems have "pending (step rt tr op st) uuid \<noteq> None"
    by (intro step_keeps_entry) simp_all
  from Cons.IH[OF this] Cons.prems(2) show ?case by simp
qed


subsection \<open>Settling pending calls\<close>



text \<open>
  Claim C10. When the transport's \<^verbatim>\<open>send\<close> fails with \<open>e\<close> during \<^verbatim>\<open>call\<close>, the promise that
  \<^verbatim>\<open>call\<close> returns is rejected with \<open>e\<close>, the entry registered under the new id is in the
  table and its promise unsettled, and the entry stays through every later run of the
  client in which \<^verbatim>\<open>receive\<close> gets no message with that id.
\<close>

theorem call_send_failure_keeps_entry:
  assumes "tr (JObj [(''jsonrpc'', JStr ''2.0''), (''method'', JStr meth),
                     (''params'', params), (''id'', JStr uuid)]) = Some e"
  shows "fst (call tr uuid meth params st) = Rejected_with e
       \<and> pending (snd (call tr uuid meth params st)) uuid = Some (promises st)
       \<and> settled (snd (call tr uuid meth params st)) = settled st
       \<and> ((\<forall>op \<in> set ops. \<not> receives_id uuid op) \<longrightarrow>
            pending (run rt tr ops (snd (call tr uuid meth params st))) uuid \<noteq> None)"
proof -
  have a: "fst (call tr uuid meth params st) = Rejected_with e"
    using assms by (simp add: call_def callImpl_def transport_send_def jsonrpc_def Let_def)
  have b: "pending (snd (call tr uuid meth params st)) uuid = Some (promises st)"
    "settled (snd (call tr uuid meth params st)) = settled st"
    by (simp_all add: call_def snd_callImpl transport_send_def)
  from b(1) have "pending (snd (call tr uuid meth params st)) uuid \<noteq> None" by simp
  from run_keeps_entry[OF this] a b show ?thesis by blast
qed

text \<open>
  Claim C10 at a transport whose \<^verbatim>\<open>send\<close> always fails.
\<close>

theorem call_send_failure_keeps_entry_witness:
  "fst (call failing_transport ''1'' ''add'' JUndefined createClient)
     = Rejected_with (Thrown_Error ''socket closed'')
   \<and> pending (snd (call failing_transport ''1'' ''add'' JUndefined createClient)) ''1'' = Some 0
   \<and> pending (run example_runtime failing_transport
        [Receive (example_result (JStr ''2'') (JNum 7)), Notify ''log'' JUndefined, Flush]
        (snd (call failing_transport ''1'' ''add'' JUndefined createClient))) ''1'' \<noteq> None"
  using call_send_failure_keeps_entry[where tr = failing_transport and uuid = "''1''"
      and meth = "''add''" and params = JUndefined and st = createClient
      and e = "Thrown_Error ''socket closed''" and rt = example_runtime
      and ops = "[Receive (example_result (JStr ''2'') (JNum 7)), Notify ''log'' JUndefined, Flush]"]
  by (simp add: failing_transport_def createClient_def example_result_def)

subsection \<open>Batching\<close>

text \<open>
  Claim C8. On a batch accumulator \<^verbatim>\<open>call\<close> and \<^verbatim>\<open>notify\<close> send nothing and append their
  message to the buffer. \<^verbatim>\<open>flush\<close> on a buffer that is not empty hands \<^verbatim>\<open>send\<close> one payload,
  the buffered messages in order, and leaves the buffer empty whether or not \<^verbatim>\<open>send\<close>
  fails; on an empty buffer it does nothing. So a new accumulator, any calls and
  notifications on it and one \<^verbatim>\<open>flush\<close> send exactly one payload, or none when there were
  no calls.
\<close>

theorem batch_accumulator:
  "sent (snd (batch_call uuid meth params st)) = sent st
   \<and> batch (snd (batch_call uuid meth params st))
       = batch st @ [JObj [(''jsonrpc'', JStr ''2.0''), (''method'', JStr meth),
                           (''params'', params), (''id'', JStr uuid)]]
   \<and> sent (snd (batch_notify meth params st)) = sent st
   \<and> batch (snd (batch_notify meth params st))
       = batch st @ [JObj [(''jsonrpc'', JStr ''2.0''), (''method'', JStr meth),
                           (''params'', params)]]
   \<and> (batch st \<noteq> [] \<longrightarrow>
        sent (snd (flush tr st)) = sent st @ [JArr (batch st)]
        \<and> batch (snd (flush tr st)) = [])
   \<and> (batch st = [] \<longrightarrow> flush tr st = (Fulfilled, st))
   \<and> ((\<forall>op \<in> set ops. batched_message op \<noteq> None) \<longrightarrow>
        sent (run rt tr ops (createBatch st)) = sent st
        \<and> sent (run rt tr (ops @ [Flush]) (createBatch st))
            = sent st @ (if ops = [] then [] else [JArr (List.map_filter batched_message ops)])
        \<and> batch (run rt tr (ops @ [Flush]) (createBatch st)) = [])"
proof -
  have a: "sent (snd (batch_call uuid meth params st)) = sent st"
    "batch (snd (batch_call uuid meth params st))
       = batch st @ [JObj [(''jsonrpc'', JStr ''2.0''), (''method'', JStr meth),
                           (''params'', params), (''id'', JStr uuid)]]"
    by (simp_all add: batch_call_def snd_callImpl addToBatch_def jsonrpc_def)
  have b: "sent (snd (batch_notify meth params st)) = sent st"
    "batch (snd (batch_notify meth params st))
       = batch st @ [JObj [(''jsonrpc'', JStr ''2.0''), (''method'', JStr meth),
                           (''params'', params)]]"
    by (simp_all add: batch_notify_def snd_notifyImpl addToBatch_def jsonrpc_def)
  have c: "sent (snd (flush tr s)) = sent s @ [JArr (batch s)] \<and> batch (snd (flush tr s)) = []"
    if "batch s \<noteq> []" for s
    using that by (simp add: snd_flush transport_send_def)
  have d: "flush tr s = (Fulfilled, s)" if "batch s = []" for s
    using that by (simp add: flush_def)
  have e: "sent (run rt tr ops (createBatch st)) = sent st
        \<and> sent (run rt tr (ops @ [Flush]) (createBatch st))
            = sent st @ (if ops = [] then [] else [JArr (List.map_filter batched_message ops)])
        \<and> batch (run rt tr (ops @ [Flush]) (createBatch st)) = []"
    if h: "\<forall>op \<in> set ops. batched_message op \<noteq> None"
  proof -
    let ?s = "run rt tr ops (createBatch st)"
    from run_batched[OF h, of rt tr "createBatch st"]
    have s: "sent ?s = sent st" "batch ?s = List.map_filter batched_message ops"
      by (simp_all add: createBatch_def)
    have ne: "batch ?s = [] \<longleftrightarrow> ops = []"
      unfolding s(2)
    proof (cases ops)
      case Nil
      then show "List.map_filter batched_message ops = [] \<longleftrightarrow> ops = []" by simp
    next
      case (Cons op ops')
      with h obtain m where "batched_message op = Some m" by auto
      with Cons show "List.map_filter batched_message ops = [] \<longleftrightarrow> ops = []" by simp
    qed
    show ?thesis
    proof (cases "ops = []")
      case True
      with ne d[of ?s] s show ?thesis by (simp add: run_append createBatch_def)
    next
      case False
      with ne c[of ?s] s show ?thesis by (simp add: run_append)
    qed
  qed
  from a b c[of st] d[of st] e show ?thesis by blast
qed

text \<open>
  Claim C8 at a batch of a notification and two calls, at an empty batch, and at a batch
  whose \<^verbatim>\<open>send\<close> fails.
\<close>

theorem batch_accumulator_witness:
  "sent (run example_runtime example_transport (example_batch_ops @ [Flush]) (createBatch createClient))
     = [JArr [JObj [(''jsonrpc'', JStr ''2.0''), (''method'', JStr ''add''),
                    (''params'', JArr [JNum 1, JNum 2])],
              JObj [(''jsonrpc'', JStr ''2.0''), (''method'', JStr ''add''),
                    (''params'', JArr [JNum 3, JNum 4]), (''id'', JStr ''1'')],
              JObj [(''jsonrpc'', JStr ''2.0''), (''method'', JStr ''add''),
                    (''params'', JArr [JNum 5, JNum 6]), (''id'', JStr ''2'')]]]
   \<and> sent (run example_runtime example_transport example_batch_ops (createBatch createClient)) = []
   \<and> flush example_transport (createBatch createClient) = (Fulfilled, createBatch createClient)
   \<and> batch (snd (flush failing_transport
        (snd (batch_notify ''add'' JUndefined (createBatch createClient))))) = []"
  using batch_accumulator[where rt = example_runtime and tr = example_transport
      and ops = example_batch_ops and st = createClient]
    batch_accumulator[where tr = example_transport and st = "createBatch createClient"]
    batch_accumulator[where tr = failing_transport
      and st = "snd (batch_notify ''add'' JUndefined (createBatch createClient))"]
    batch_accumulator[where meth = "''add''" and params = JUndefined
      and st = "createBatch createClient"]
  by (simp add: example_batch_ops_def createClient_def createBatch_def jsonrpc_def)

end
